theory Spec2Isabelle
  imports Complex_Main
begin

section \<open>Data model (models/ActivityModel)\<close>

text \<open>
  JavaScript numbers are modelled as real numbers: every finite value, with rounding
  left out. The one place where the modelled code can leave the finite numbers is
  written out: the division by the configured window in \<open>getConfidence\<close>, which is NaN
  or Infinity when the window is 0. A number that may be NaN has type \<open>real option\<close>,
  with \<open>None\<close> for NaN. Every other division of the modelled code is by a constant or
  behind the source's own test of the divisor, and every square root is of a number
  that is not negative.

  Counts (steps, tallies, array lengths) are natural numbers and timestamps are
  integers. The optional fields of a location that no function below reads (altitude,
  accuracy, heading) are left out.
\<close>

datatype ActivityType = IDLE | WALKING | RUNNING | VEHICLE | UNKNOWN

record LocationData =
  latitude :: real
  longitude :: real
  speed :: "real option"
  timestamp :: int

record AccelerometerData =
  accel_x :: real
  accel_y :: real
  accel_z :: real
  magnitude :: real
  accel_timestamp :: int

record ActivityLog =
  log_id :: string
  log_activity :: ActivityType
  log_confidence :: "real option"
  log_location :: LocationData
  log_acceleration :: AccelerometerData
  log_timestamp :: int
  log_speed :: real

record SessionStats =
  sessionId :: string
  startTime :: int
  endTime :: "int option"
  duration :: int
  distance :: real
  steps :: nat
  calories :: real
  averageSpeed :: real
  maxSpeed :: real
  activities :: "ActivityType \<rightharpoonup> nat"

record ClassifierConfig =
  idleSpeedThreshold :: real
  walkingSpeedThreshold :: real
  runningSpeedThreshold :: real
  vehicleSpeedThreshold :: real
  idleAccelerationThreshold :: real
  walkingAccelerationThreshold :: real
  runningAccelerationThreshold :: real
  movingAverageWindow :: real
  confidenceThreshold :: real
  stepDetectionThreshold :: real
  caloriesPerStep :: real
  caloriesPerKmRunning :: real
  caloriesPerKmVehicle :: real

definition DEFAULT_CLASSIFIER_CONFIG :: ClassifierConfig where
  "DEFAULT_CLASSIFIER_CONFIG =
     \<lparr> idleSpeedThreshold = 0.5,
       walkingSpeedThreshold = 2.5,
       runningSpeedThreshold = 5.0,
       vehicleSpeedThreshold = 8.0,
       idleAccelerationThreshold = 0.15,
       walkingAccelerationThreshold = 0.3,
       runningAccelerationThreshold = 0.6,
       movingAverageWindow = 5,
       confidenceThreshold = 0.7,
       stepDetectionThreshold = 0.25,
       caloriesPerStep = 0.04,
       caloriesPerKmRunning = 62,
       caloriesPerKmVehicle = 0 \<rparr>"

section \<open>The classifier service (services/ClassifierService.ts)\<close>

text \<open>The private fields of the singleton \<open>ActivityClassifierService\<close>.\<close>

record ActivityClassifierService =
  config :: ClassifierConfig
  speedHistory :: "real list"
  accelerationHistory :: "real list"

definition initialService :: ActivityClassifierService where
  "initialService =
     \<lparr> config = DEFAULT_CLASSIFIER_CONFIG, speedHistory = [], accelerationHistory = [] \<rparr>"

definition calculateMagnitude :: "real \<Rightarrow> real \<Rightarrow> real \<Rightarrow> real" where
  "calculateMagnitude ax ay az = sqrt (ax * ax + ay * ay + az * az)"

text \<open>\<open>values.reduce((acc, val) => acc + val, 0) / values.length\<close>, and 0 on the empty array.\<close>

definition calculateMovingAverage :: "real list \<Rightarrow> real" where
  "calculateMovingAverage values =
     (if length values = 0 then 0
      else foldl (\<lambda>acc val. acc + val) 0 values / real (length values))"

text \<open>
  \<open>updateHistory\<close> copies the array, appends, and shifts the oldest element out when the
  copy is longer than the window. It reads the configuration and writes nothing.
\<close>

definition updateHistory :: "ActivityClassifierService \<Rightarrow> real list \<Rightarrow> real \<Rightarrow> real list" where
  "updateHistory this history newValue =
     (let updated = history @ [newValue]
      in if real (length updated) > movingAverageWindow (config this)
         then tl updated else updated)"

definition updateHistories ::
  "ActivityClassifierService \<Rightarrow> real \<Rightarrow> real \<Rightarrow> ActivityClassifierService" where
  "updateHistories this spd acc =
     (let this1 = this\<lparr> speedHistory := updateHistory this (speedHistory this) spd \<rparr>
      in this1\<lparr> accelerationHistory :=
                   updateHistory this1 (accelerationHistory this1) acc \<rparr>)"

definition getAverages :: "ActivityClassifierService \<Rightarrow> real \<times> real" where
  "getAverages this =
     (calculateMovingAverage (speedHistory this),
      calculateMovingAverage (accelerationHistory this))"

definition getActivity :: "ActivityClassifierService \<Rightarrow> real \<Rightarrow> real \<Rightarrow> ActivityType" where
  "getActivity this spd acceleration =
     (let (avgSpeed, avgAcceleration) = getAverages this;
          effectiveSpeed = (if avgSpeed > 0 then avgSpeed else spd);
          effectiveAcceleration =
            (if avgAcceleration > 0 then avgAcceleration else acceleration);
          cfg = config this
      in if effectiveSpeed < idleSpeedThreshold cfg then
           (if effectiveAcceleration < idleAccelerationThreshold cfg then IDLE else IDLE)
         else if effectiveSpeed \<ge> vehicleSpeedThreshold cfg then VEHICLE
         else if effectiveSpeed \<ge> runningSpeedThreshold cfg then
           (if effectiveAcceleration \<ge> runningAccelerationThreshold cfg
            then RUNNING else VEHICLE)
         else if effectiveSpeed \<ge> walkingSpeedThreshold cfg then
           (if effectiveAcceleration \<ge> walkingAccelerationThreshold cfg
            then RUNNING else WALKING)
         else if effectiveAcceleration \<ge> walkingAccelerationThreshold cfg then WALKING
         else IDLE)"

text \<open>\<open>Math.pow(value - avg, 2)\<close> over the array, then its mean.\<close>

definition calculateVariance :: "real list \<Rightarrow> real" where
  "calculateVariance values =
     (if length values = 0 then 0
      else (let avg = calculateMovingAverage values;
                squareDiffs = map (\<lambda>v. (v - avg) ^ 2) values
            in calculateMovingAverage squareDiffs))"

text \<open>
  \<open>Math.min(this.speedHistory.length / this.config.movingAverageWindow, 1)\<close>.
  The window is a configuration value and may be zero: \<open>0 / 0\<close> is NaN, and
  \<open>Math.min(NaN, 1)\<close> is NaN; \<open>n / 0\<close> with \<open>n > 0\<close> is Infinity, and
  \<open>Math.min(Infinity, 1)\<close> is 1.
\<close>

definition historyFactor :: "nat \<Rightarrow> real \<Rightarrow> real option" where
  "historyFactor n window =
     (if window = 0 then (if n = 0 then None else Some 1)
      else Some (min (real n / window) 1))"

text \<open>The \<open>switch (activity)\<close> of \<open>getConfidence\<close>; UNKNOWN has no case and adds nothing.\<close>

definition consistencyBonus :: "ClassifierConfig \<Rightarrow> real \<Rightarrow> real \<Rightarrow> ActivityType \<Rightarrow> real" where
  "consistencyBonus cfg spd acceleration activity =
     (case activity of
        IDLE \<Rightarrow>
          (if spd < idleSpeedThreshold cfg \<and> acceleration < idleAccelerationThreshold cfg
           then 0.3 else 0)
      | WALKING \<Rightarrow>
          (if spd \<ge> idleSpeedThreshold cfg \<and> spd < runningSpeedThreshold cfg \<and>
              acceleration \<ge> walkingAccelerationThreshold cfg
           then 0.25 else 0)
      | RUNNING \<Rightarrow>
          (if spd \<ge> runningSpeedThreshold cfg \<and>
              acceleration \<ge> runningAccelerationThreshold cfg
           then 0.3 else 0)
      | VEHICLE \<Rightarrow> (if spd \<ge> vehicleSpeedThreshold cfg then 0.3 else 0)
      | UNKNOWN \<Rightarrow> 0)"

definition stabilityBonus :: "ActivityClassifierService \<Rightarrow> real" where
  "stabilityBonus this =
     (if real (length (speedHistory this)) \<ge> movingAverageWindow (config this)
      then (if calculateVariance (speedHistory this) < 0.5 then 0.1 else 0)
      else 0)"

text \<open>
  \<open>getConfidence\<close>: NaN stays NaN through the additions and through
  \<open>Math.min(Math.max(confidence, 0), 1)\<close>.
\<close>

definition getConfidence ::
  "ActivityClassifierService \<Rightarrow> real \<Rightarrow> real \<Rightarrow> ActivityType \<Rightarrow> real option" where
  "getConfidence this spd acceleration activity =
     (case historyFactor (length (speedHistory this)) (movingAverageWindow (config this)) of
        None \<Rightarrow> None
      | Some hf \<Rightarrow>
          (let confidence = 0.5 + hf * 0.2;
               confidence = confidence + consistencyBonus (config this) spd acceleration activity;
               confidence = confidence + stabilityBonus this
           in Some (min (max confidence 0) 1)))"

text \<open>
  \<open>detectStep\<close> reads the last element of the acceleration history; the read is in
  range because the function has returned before it when the history is shorter than 2.
\<close>

definition detectStep :: "ActivityClassifierService \<Rightarrow> real \<Rightarrow> bool" where
  "detectStep this acceleration =
     (if length (accelerationHistory this) < 2 then False
      else (let prevAcceleration =
                  accelerationHistory this ! (length (accelerationHistory this) - 1)
            in acceleration > prevAcceleration + stepDetectionThreshold (config this) \<and>
               acceleration > walkingAccelerationThreshold (config this)))"

definition reset :: "ActivityClassifierService \<Rightarrow> ActivityClassifierService" where
  "reset this = this\<lparr> speedHistory := [], accelerationHistory := [] \<rparr>"

definition getConfig :: "ActivityClassifierService \<Rightarrow> ClassifierConfig" where
  "getConfig this = config this"

text \<open>
  \<open>setConfig\<close> takes a \<open>Partial<ClassifierConfig>\<close>: every field may be absent, and
  \<open>{ ...this.config, ...config }\<close> keeps the old value of an absent field.
\<close>

record PartialClassifierConfig =
  p_idleSpeedThreshold :: "real option"
  p_walkingSpeedThreshold :: "real option"
  p_runningSpeedThreshold :: "real option"
  p_vehicleSpeedThreshold :: "real option"
  p_idleAccelerationThreshold :: "real option"
  p_walkingAccelerationThreshold :: "real option"
  p_runningAccelerationThreshold :: "real option"
  p_movingAverageWindow :: "real option"
  p_confidenceThreshold :: "real option"
  p_stepDetectionThreshold :: "real option"
  p_caloriesPerStep :: "real option"
  p_caloriesPerKmRunning :: "real option"
  p_caloriesPerKmVehicle :: "real option"

definition override :: "real \<Rightarrow> real option \<Rightarrow> real" where
  "override old new = (case new of None \<Rightarrow> old | Some v \<Rightarrow> v)"

definition setConfig ::
  "ActivityClassifierService \<Rightarrow> PartialClassifierConfig \<Rightarrow> ActivityClassifierService" where
  "setConfig this p =
     (let c = config this
      in this\<lparr> config :=
           \<lparr> idleSpeedThreshold = override (idleSpeedThreshold c) (p_idleSpeedThreshold p),
             walkingSpeedThreshold =
               override (walkingSpeedThreshold c) (p_walkingSpeedThreshold p),
             runningSpeedThreshold =
               override (runningSpeedThreshold c) (p_runningSpeedThreshold p),
             vehicleSpeedThreshold =
               override (vehicleSpeedThreshold c) (p_vehicleSpeedThreshold p),
             idleAccelerationThreshold =
               override (idleAccelerationThreshold c) (p_idleAccelerationThreshold p),
             walkingAccelerationThreshold =
               override (walkingAccelerationThreshold c) (p_walkingAccelerationThreshold p),
             runningAccelerationThreshold =
               override (runningAccelerationThreshold c) (p_runningAccelerationThreshold p),
             movingAverageWindow = override (movingAverageWindow c) (p_movingAverageWindow p),
             confidenceThreshold = override (confidenceThreshold c) (p_confidenceThreshold p),
             stepDetectionThreshold =
               override (stepDetectionThreshold c) (p_stepDetectionThreshold p),
             caloriesPerStep = override (caloriesPerStep c) (p_caloriesPerStep p),
             caloriesPerKmRunning =
               override (caloriesPerKmRunning c) (p_caloriesPerKmRunning p),
             caloriesPerKmVehicle =
               override (caloriesPerKmVehicle c) (p_caloriesPerKmVehicle p) \<rparr> \<rparr>)"

definition noOverride :: PartialClassifierConfig where
  "noOverride =
     \<lparr> p_idleSpeedThreshold = None, p_walkingSpeedThreshold = None,
       p_runningSpeedThreshold = None, p_vehicleSpeedThreshold = None,
       p_idleAccelerationThreshold = None, p_walkingAccelerationThreshold = None,
       p_runningAccelerationThreshold = None, p_movingAverageWindow = None,
       p_confidenceThreshold = None, p_stepDetectionThreshold = None,
       p_caloriesPerStep = None, p_caloriesPerKmRunning = None,
       p_caloriesPerKmVehicle = None \<rparr>"

section \<open>The haversine distance (services/LocationService.ts)\<close>

text \<open>
  \<open>Math.atan2(y, x)\<close> on finite numbers, by the quadrant of the point; at the origin it
  is 0.
\<close>

definition atan2 :: "real \<Rightarrow> real \<Rightarrow> real" where
  "atan2 b a =
     (if a > 0 then arctan (b / a)
      else if a < 0 then (if b \<ge> 0 then arctan (b / a) + pi else arctan (b / a) - pi)
      else if b > 0 then pi / 2
      else if b < 0 then - (pi / 2)
      else 0)"

text \<open>The term \<open>a\<close> of the haversine formula, as \<open>calculateDistance\<close> computes it.\<close>

definition haversineA :: "real \<Rightarrow> real \<Rightarrow> real \<Rightarrow> real \<Rightarrow> real" where
  "haversineA lat1 lon1 lat2 lon2 =
     (let phi1 = (lat1 * pi) / 180;
          phi2 = (lat2 * pi) / 180;
          dphi = ((lat2 - lat1) * pi) / 180;
          dlambda = ((lon2 - lon1) * pi) / 180
      in sin (dphi / 2) * sin (dphi / 2) +
         cos phi1 * cos phi2 * sin (dlambda / 2) * sin (dlambda / 2))"

definition calculateDistance :: "real \<Rightarrow> real \<Rightarrow> real \<Rightarrow> real \<Rightarrow> real" where
  "calculateDistance lat1 lon1 lat2 lon2 =
     (let R = 6371000;
          a = haversineA lat1 lon1 lat2 lon2;
          c = 2 * atan2 (sqrt a) (sqrt (1 - a))
      in R * c)"

section \<open>Batch statistics (controllers/ActivityControl.ts)\<close>

text \<open>
  The first loop of \<open>calculateSessionStats\<close>: \<open>i\<close> runs from 1, and each round adds the
  distance from \<open>logs[i - 1]\<close> to \<open>logs[i]\<close>.
\<close>

definition logDistance :: "ActivityLog \<Rightarrow> ActivityLog \<Rightarrow> real" where
  "logDistance prev current =
     calculateDistance (latitude (log_location prev)) (longitude (log_location prev))
       (latitude (log_location current)) (longitude (log_location current))"

fun totalDistanceLoop :: "ActivityLog list \<Rightarrow> real \<Rightarrow> real" where
  "totalDistanceLoop (prev # current # rest) totalDistance =
     totalDistanceLoop (current # rest) (totalDistance + logDistance prev current)"
| "totalDistanceLoop _ totalDistance = totalDistance"

text \<open>
  The second loop, over \<open>logs[1]\<close>, \<open>logs[2]\<close>, ...: the step detector runs on the
  service's own acceleration history, which the loop never changes.
\<close>

fun stepsLoop :: "ActivityClassifierService \<Rightarrow> ActivityLog list \<Rightarrow> nat \<Rightarrow> nat" where
  "stepsLoop this [] n = n"
| "stepsLoop this (l # ls) n =
     stepsLoop this ls
       (if detectStep this (magnitude (log_acceleration l))
        then (if log_activity l = WALKING \<or> log_activity l = RUNNING then n + 1 else n)
        else n)"

text \<open>The \<open>reduce\<close> over the RUNNING logs: index 0 adds nothing, index \<open>i\<close> adds the
  distance from \<open>arr[i - 1]\<close> to \<open>arr[i]\<close>.\<close>

definition runningDistance :: "ActivityLog list \<Rightarrow> real" where
  "runningDistance logs =
     (let arr = filter (\<lambda>l. log_activity l = RUNNING) logs
      in foldl (\<lambda>s index.
                  if index = 0 then s
                  else s + logDistance (arr ! (index - 1)) (arr ! index))
           0 [0 ..< length arr])"

text \<open>\<open>tally[activity] = (tally[activity] || 0) + 1\<close>, on a copy of the tally.\<close>

definition incrementTally ::
  "(ActivityType \<rightharpoonup> nat) \<Rightarrow> ActivityType \<Rightarrow> (ActivityType \<rightharpoonup> nat)" where
  "incrementTally tally a =
     tally(a \<mapsto> (case tally a of None \<Rightarrow> 0 | Some k \<Rightarrow> k) + 1)"

definition countActivities :: "ActivityLog list \<Rightarrow> (ActivityType \<rightharpoonup> nat)" where
  "countActivities logs =
     foldl (\<lambda>tally l. incrementTally tally (log_activity l)) Map.empty logs"

text \<open>
  \<open>calculateSessionStats\<close>. \<open>now\<close> is what \<open>Date.now()\<close> returns in the call; each branch
  reads the clock once.
\<close>

definition calculateSessionStats ::
  "ActivityClassifierService \<Rightarrow> int \<Rightarrow> ActivityLog list \<Rightarrow> string \<Rightarrow> int \<Rightarrow> SessionStats" where
  "calculateSessionStats this now logs sid start =
     (if length logs = 0 then
        \<lparr> sessionId = sid, startTime = start, endTime = Some now, duration = 0,
          distance = 0, steps = 0, calories = 0, averageSpeed = 0, maxSpeed = 0,
          activities = Map.empty \<rparr>
      else
        (let totalDistance = totalDistanceLoop logs 0;
             stepCount = stepsLoop this (drop 1 logs) 0;
             cfg = getConfig this;
             cal = real stepCount * caloriesPerStep cfg;
             cal = cal + (runningDistance logs / 1000) * caloriesPerKmRunning cfg;
             speeds = filter (\<lambda>s. s > 0) (map log_speed logs);
             avgSpeed = (if length speeds > 0
                         then foldl (\<lambda>s v. s + v) 0 speeds / real (length speeds)
                         else 0);
             mxSpeed = (if length speeds > 0 then fold max (tl speeds) (hd speeds) else 0);
             acts = countActivities logs;
             endT = now;
             dur = endT - start
         in \<lparr> sessionId = sid, startTime = start, endTime = Some endT, duration = dur,
              distance = totalDistance, steps = stepCount, calories = cal,
              averageSpeed = avgSpeed, maxSpeed = mxSpeed, activities = acts \<rparr>))"

section \<open>Live tracking (hooks/ActivityClassifier.ts and hooks/useActivityClassifier.ts)\<close>

text \<open>
  The state the two hooks keep: the React state, the refs, and the classifier singleton
  they both call. \<open>sessionStats\<close> is a state variable in hooks/ActivityClassifier.ts and
  \<open>sessionStatsRef.current\<close> in hooks/useActivityClassifier.ts; the three counters and
  \<open>lastLocationRef\<close> are refs. \<open>location\<close>, \<open>acceleration\<close> and \<open>isActive\<close> are the
  values the callback sees.
\<close>

datatype HookError = ErrorProcesandoUbicacion

record TrackerState =
  service :: ActivityClassifierService
  isActive :: bool
  currentActivity :: ActivityType
  confidence :: "real option"
  activityLogs :: "ActivityLog list"
  location :: "LocationData option"
  acceleration :: "AccelerometerData option"
  error :: "HookError option"
  sessionStats :: SessionStats
  lastLocationRef :: "LocationData option"
  stepCountRef :: nat
  speedSumRef :: real
  speedCountRef :: nat

subsection \<open>The accelerometer listener of hooks/ActivityClassifier.ts\<close>

text \<open>The function given to \<open>setSessionStats\<close>, applied to the previous statistics.\<close>

definition liveStatsUpdate :: "ActivityType \<Rightarrow> int \<Rightarrow> SessionStats \<Rightarrow> SessionStats" where
  "liveStatsUpdate activity now prev =
     (let dur = now - startTime prev;
          durationInSeconds = real_of_int dur / 1000;
          st = steps prev;
          cal = calories prev;
          st = (if activity = WALKING \<or> activity = RUNNING then st + 1 else st);
          cal = (if activity = RUNNING then cal + 0.1
                 else if activity = WALKING then cal + 0.05
                 else cal);
          avg = (if durationInSeconds > 0 then distance prev / durationInSeconds else 0)
      in prev\<lparr> duration := dur, steps := st, calories := cal, averageSpeed := avg,
               activities := incrementTally (activities prev) activity \<rparr>)"

text \<open>\<open>location?.latitude && location?.longitude\<close>: a number is truthy when it is not 0.\<close>

definition locationKnown :: "LocationData option \<Rightarrow> bool" where
  "locationKnown l =
     (case l of None \<Rightarrow> False | Some loc \<Rightarrow> latitude loc \<noteq> 0 \<and> longitude loc \<noteq> 0)"

definition speedOrZero :: "LocationData \<Rightarrow> real" where
  "speedOrZero loc = (case speed loc of None \<Rightarrow> 0 | Some v \<Rightarrow> v)"

text \<open>
  One accelerometer sample \<open>(ax, ay, az)\<close>. \<open>now\<close> stands for the clock, which the
  source reads several times in one call (one reading is used for all of them), and
  \<open>newId\<close> for the generated log id. The state update functions given to React are
  applied at once.
\<close>

definition accelerometerListener ::
  "TrackerState \<Rightarrow> real \<Rightarrow> real \<Rightarrow> real \<Rightarrow> int \<Rightarrow> string \<Rightarrow> TrackerState" where
  "accelerometerListener s ax ay az now newId =
     (let mag = calculateMagnitude ax ay az;
          accelData = \<lparr> accel_x = ax, accel_y = ay, accel_z = az, magnitude = mag,
                        accel_timestamp = now \<rparr>;
          s1 = s\<lparr> acceleration := Some accelData \<rparr>
      in case location s of
           None \<Rightarrow> s1
         | Some loc \<Rightarrow>
             if locationKnown (Some loc) then
               (let spd = speedOrZero loc;
                    svc = updateHistories (service s) spd mag;
                    activity = getActivity svc spd mag;
                    activityConfidence = getConfidence svc spd mag activity;
                    lg = \<lparr> log_id = newId, log_activity = activity,
                           log_confidence = activityConfidence, log_location = loc,
                           log_acceleration = accelData, log_timestamp = now,
                           log_speed = spd \<rparr>
                in s1\<lparr> service := svc, currentActivity := activity,
                       confidence := activityConfidence,
                       activityLogs := activityLogs s @ [lg],
                       sessionStats := liveStatsUpdate activity now (sessionStats s) \<rparr>)
             else s1)"

subsection \<open>The location callback of hooks/useActivityClassifier.ts\<close>

text \<open>
  \<open>handleLocationUpdate\<close> calls \<open>updateHistory(effectiveSpeed, acceleration.magnitude)\<close>:
  the first argument, declared \<open>number[]\<close>, is a number there. The spread
  \<open>[...history, newValue]\<close> of a value that is not iterable throws a TypeError.
\<close>

datatype JsValue = JsNumber real | JsArray "real list"

datatype JsError = TypeError

definition updateHistoryCall ::
  "ActivityClassifierService \<Rightarrow> JsValue \<Rightarrow> real \<Rightarrow> JsError + real list" where
  "updateHistoryCall this history newValue =
     (case history of
        JsNumber _ \<Rightarrow> Inl TypeError
      | JsArray h \<Rightarrow> Inr (updateHistory this h newValue))"

text \<open>The calorie increment of \<open>handleLocationUpdate\<close>.\<close>

definition caloriesIncrement :: "ClassifierConfig \<Rightarrow> ActivityType \<Rightarrow> real \<Rightarrow> real" where
  "caloriesIncrement cfg activity distanceIncrement =
     (if activity = WALKING then caloriesPerStep cfg
      else if activity = RUNNING then
        caloriesPerStep cfg + (distanceIncrement / 1000) * caloriesPerKmRunning cfg
      else 0)"

text \<open>The distance from the last fix, 0 when there is none.\<close>

definition distanceIncrementFrom :: "LocationData option \<Rightarrow> LocationData \<Rightarrow> real" where
  "distanceIncrementFrom lastLocation newLocation =
     (case lastLocation of
        None \<Rightarrow> 0
      | Some l \<Rightarrow>
          calculateDistance (latitude l) (longitude l)
            (latitude newLocation) (longitude newLocation))"

text \<open>The statements of the \<open>try\<close> block after the call of \<open>updateHistory\<close>.\<close>

definition handleLocationUpdateRest ::
  "TrackerState \<Rightarrow> LocationData \<Rightarrow> AccelerometerData \<Rightarrow> int \<Rightarrow> string \<Rightarrow> TrackerState" where
  "handleLocationUpdateRest s newLocation accel now newId =
     (let effectiveSpeed = \<bar>speedOrZero newLocation\<bar>;
          activity = getActivity (service s) effectiveSpeed (magnitude accel);
          activityConfidence =
            getConfidence (service s) effectiveSpeed (magnitude accel) activity;
          distanceIncrement = distanceIncrementFrom (lastLocationRef s) newLocation;
          stepCount =
            (if detectStep (service s) (magnitude accel)
             then (if activity = WALKING \<or> activity = RUNNING
                   then stepCountRef s + 1 else stepCountRef s)
             else stepCountRef s);
          cfg = getConfig (service s);
          calInc = caloriesIncrement cfg activity distanceIncrement;
          speedSum = speedSumRef s + effectiveSpeed;
          speedCount = speedCountRef s + 1;
          lg = \<lparr> log_id = newId, log_activity = activity,
                 log_confidence = activityConfidence, log_location = newLocation,
                 log_acceleration = accel, log_timestamp = now,
                 log_speed = effectiveSpeed \<rparr>;
          currentStats = sessionStats s;
          newStats = currentStats
            \<lparr> duration := now - startTime currentStats,
              distance := distance currentStats + distanceIncrement,
              steps := stepCount,
              calories := calories currentStats + calInc,
              averageSpeed := (if speedCount > 0 then speedSum / real speedCount else 0),
              maxSpeed := max (maxSpeed currentStats) effectiveSpeed,
              activities := incrementTally (activities currentStats) activity \<rparr>
      in s\<lparr> currentActivity := activity, confidence := activityConfidence,
            stepCountRef := stepCount, speedSumRef := speedSum,
            speedCountRef := speedCount, activityLogs := activityLogs s @ [lg],
            sessionStats := newStats, lastLocationRef := Some newLocation \<rparr>)"

definition handleLocationUpdate ::
  "TrackerState \<Rightarrow> LocationData \<Rightarrow> int \<Rightarrow> string \<Rightarrow> TrackerState" where
  "handleLocationUpdate s newLocation now newId =
     (let s1 = s\<lparr> location := Some newLocation \<rparr>
      in case acceleration s of
           None \<Rightarrow> s1
         | Some accel \<Rightarrow>
             if isActive s then
               (let effectiveSpeed = \<bar>speedOrZero newLocation\<bar>
                in case updateHistoryCall (service s) (JsNumber effectiveSpeed)
                          (magnitude accel) of
                     Inl err \<Rightarrow> s1\<lparr> error := Some ErrorProcesandoUbicacion \<rparr>
                   | Inr unused \<Rightarrow> handleLocationUpdateRest s1 newLocation accel now newId)
             else s1)"

section \<open>Method calls on the classifier, with the state they leave\<close>

text \<open>
  Each public method of the service as a step on the service's fields: the result of the
  call and the fields afterwards. \<open>getActivity\<close>, \<open>getConfidence\<close> and \<open>detectStep\<close>
  assign to no field; \<open>updateHistories\<close>, \<open>setConfig\<close> and \<open>reset\<close> do.
\<close>

datatype Method =
    GetActivity real real
  | GetConfidence real real ActivityType
  | DetectStep real
  | UpdateHistories real real
  | SetConfig PartialClassifierConfig
  | Reset

datatype Result =
    Activity ActivityType
  | Confidence "real option"
  | Step bool
  | Void

fun invoke :: "ActivityClassifierService \<Rightarrow> Method \<Rightarrow> Result \<times> ActivityClassifierService" where
  "invoke this (GetActivity spd acc) = (Activity (getActivity this spd acc), this)"
| "invoke this (GetConfidence spd acc a) = (Confidence (getConfidence this spd acc a), this)"
| "invoke this (DetectStep acc) = (Step (detectStep this acc), this)"
| "invoke this (UpdateHistories spd acc) = (Void, updateHistories this spd acc)"
| "invoke this (SetConfig p) = (Void, setConfig this p)"
| "invoke this Reset = (Void, reset this)"

fun readOnly :: "Method \<Rightarrow> bool" where
  "readOnly (GetActivity spd acc) = True"
| "readOnly (GetConfidence spd acc a) = True"
| "readOnly (DetectStep acc) = True"
| "readOnly (UpdateHistories spd acc) = False"
| "readOnly (SetConfig p) = False"
| "readOnly Reset = False"

text \<open>A sequence of calls, each on the state the one before it left.\<close>

fun invokeAll ::
  "ActivityClassifierService \<Rightarrow> Method list \<Rightarrow> Result list \<times> ActivityClassifierService" where
  "invokeAll this [] = ([], this)"
| "invokeAll this (m # ms) =
     (let (r, this1) = invoke this m;
          (rs, this2) = invokeAll this1 ms
      in (r # rs, this2))"

text \<open>A sequence of pushes into one channel, from the empty buffer.\<close>

definition pushAll :: "ActivityClassifierService \<Rightarrow> real list \<Rightarrow> real list" where
  "pushAll this vs = foldl (updateHistory this) [] vs"

section \<open>The specification's rules, as the specification words them\<close>

text \<open>The mean of a buffer: the arithmetic mean of its contents, 0 when it is empty.\<close>

definition spec_mean :: "real list \<Rightarrow> real" where
  "spec_mean xs = (if xs = [] then 0 else sum_list xs / real (length xs))"

text \<open>The effective value: the history mean if the history is non-empty and the mean
  is positive, else the raw value.\<close>

definition spec_effective :: "real list \<Rightarrow> real \<Rightarrow> real" where
  "spec_effective history raw =
     (if history \<noteq> [] \<and> spec_mean history > 0 then spec_mean history else raw)"

text \<open>The ordered decision of the specification, rules 2 to 7; the first match wins.\<close>

definition spec_decision :: "ClassifierConfig \<Rightarrow> real \<Rightarrow> real \<Rightarrow> ActivityType" where
  "spec_decision cfg effectiveSpeed effectiveAcceleration =
     (if effectiveSpeed < idleSpeedThreshold cfg then IDLE
      else if effectiveSpeed \<ge> vehicleSpeedThreshold cfg then VEHICLE
      else if effectiveSpeed \<ge> runningSpeedThreshold cfg then
        (if effectiveAcceleration \<ge> runningAccelerationThreshold cfg then RUNNING
         else VEHICLE)
      else if effectiveSpeed \<ge> walkingSpeedThreshold cfg then
        (if effectiveAcceleration \<ge> walkingAccelerationThreshold cfg then RUNNING
         else WALKING)
      else if effectiveAcceleration \<ge> walkingAccelerationThreshold cfg then WALKING
      else IDLE)"

definition spec_getActivity ::
  "ActivityClassifierService \<Rightarrow> real \<Rightarrow> real \<Rightarrow> ActivityType" where
  "spec_getActivity this spd acc =
     spec_decision (config this) (spec_effective (speedHistory this) spd)
       (spec_effective (accelerationHistory this) acc)"

text \<open>The step rule of the specification: the newest magnitude exceeds the previous
  history sample by more than the step threshold, and exceeds the walking threshold;
  false when the history holds fewer than 2 samples.\<close>

definition spec_detectStep :: "ActivityClassifierService \<Rightarrow> real \<Rightarrow> bool" where
  "spec_detectStep this m =
     (if length (accelerationHistory this) < 2 then False
      else m - last (accelerationHistory this) > stepDetectionThreshold (config this) \<and>
           m > walkingAccelerationThreshold (config this))"

text \<open>The specification's confidence: the sum of the base and the bonuses, clamped.\<close>

definition spec_clamp :: "real \<Rightarrow> real \<Rightarrow> real \<Rightarrow> real" where
  "spec_clamp v lo hi = (if v < lo then lo else if v > hi then hi else v)"

definition spec_confidence ::
  "ActivityClassifierService \<Rightarrow> real \<Rightarrow> real \<Rightarrow> ActivityType \<Rightarrow> real" where
  "spec_confidence this spd acc activity =
     spec_clamp
       (0.5 +
        min (real (length (speedHistory this)) / movingAverageWindow (config this)) 1 * 0.2 +
        consistencyBonus (config this) spd acc activity + stabilityBonus this)
       0 1"

text \<open>The incremental rules of the specification for steps and calories: a step is
  counted when the detector fired and the activity is walking or running; calories
  accrue only with a counted step.\<close>

definition spec_stepCounted :: "bool \<Rightarrow> ActivityType \<Rightarrow> bool" where
  "spec_stepCounted fired activity = (fired \<and> (activity = WALKING \<or> activity = RUNNING))"

definition spec_steps :: "bool \<Rightarrow> ActivityType \<Rightarrow> nat \<Rightarrow> nat" where
  "spec_steps fired activity n = (if spec_stepCounted fired activity then n + 1 else n)"

definition spec_calories ::
  "ClassifierConfig \<Rightarrow> bool \<Rightarrow> ActivityType \<Rightarrow> real \<Rightarrow> real \<Rightarrow> real" where
  "spec_calories cfg counted activity distanceIncrement cal =
     (if counted \<and> activity = WALKING then cal + caloriesPerStep cfg
      else if counted \<and> activity = RUNNING then
        cal + caloriesPerStep cfg + (distanceIncrement / 1000) * caloriesPerKmRunning cfg
      else cal)"

section \<open>Concrete inputs\<close>

definition zeroStats :: SessionStats where
  "zeroStats =
     \<lparr> sessionId = ''session_1'', startTime = 0, endTime = None, duration = 0,
       distance = 0, steps = 0, calories = 0, averageSpeed = 0, maxSpeed = 0,
       activities = Map.empty \<rparr>"

definition somewhere :: LocationData where
  "somewhere = \<lparr> latitude = 19, longitude = -99, speed = Some 1, timestamp = 0 \<rparr>"

text \<open>A session that has just started: the service reset, the statistics zero, one fix known.\<close>

definition startedTracker :: TrackerState where
  "startedTracker =
     \<lparr> service = initialService, isActive = True, currentActivity = UNKNOWN,
       confidence = Some 0, activityLogs = [], location = Some somewhere,
       acceleration = None, error = None, sessionStats = zeroStats,
       lastLocationRef = None, stepCountRef = 0, speedSumRef = 0, speedCountRef = 0 \<rparr>"

definition sampleLog :: ActivityLog where
  "sampleLog =
     \<lparr> log_id = ''log_1'', log_activity = WALKING, log_confidence = Some 0.7,
       log_location = somewhere,
       log_acceleration = \<lparr> accel_x = 1, accel_y = 0, accel_z = 0, magnitude = 1,
                             accel_timestamp = 0 \<rparr>,
       log_timestamp = 0, log_speed = 1 \<rparr>"

text \<open>The first accelerometer sample of that session: one g along the first axis.\<close>

definition firstSample :: TrackerState where
  "firstSample = accelerometerListener startedTracker 1 0 0 1000 ''log_1''"

text \<open>The service after \<open>setConfig({ movingAverageWindow: 0 })\<close>.\<close>

definition zeroWindowService :: ActivityClassifierService where
  "zeroWindowService =
     setConfig initialService (noOverride\<lparr> p_movingAverageWindow := Some 0 \<rparr>)"

text \<open>The service after \<open>setConfig({ movingAverageWindow: -1 })\<close>.\<close>

definition negativeWindowService :: ActivityClassifierService where
  "negativeWindowService =
     setConfig initialService (noOverride\<lparr> p_movingAverageWindow := Some (- 1) \<rparr>)"

text \<open>A session whose classifier has seen two quiet samples, and a sample of one g.\<close>

definition oneG :: AccelerometerData where
  "oneG = \<lparr> accel_x = 1, accel_y = 0, accel_z = 0, magnitude = 1, accel_timestamp = 900 \<rparr>"

definition walkingTracker :: TrackerState where
  "walkingTracker =
     startedTracker
       \<lparr> service := updateHistories (updateHistories initialService 1 (1 / 2)) 1 (1 / 2),
         acceleration := Some oneG \<rparr>"

section \<open>The classifier's decision\<close>

lemma foldl_add_sum_list: "foldl (\<lambda>acc val. acc + val) (a::real) xs = a + sum_list xs"
  by (induction xs arbitrary: a) simp_all

lemma calculateMovingAverage_spec_mean: "calculateMovingAverage xs = spec_mean xs"
  by (simp add: calculateMovingAverage_def spec_mean_def foldl_add_sum_list)

lemma spec_effective_code:
  "spec_effective h raw =
     (if calculateMovingAverage h > 0 then calculateMovingAverage h else raw)"
  by (auto simp: spec_effective_def calculateMovingAverage_spec_mean spec_mean_def)

text \<open>
  Claim C1. For every classifier state and every raw speed and acceleration magnitude,
  \<open>getActivity\<close> returns the state of the specification's ordered first-match decision on
  the effective speed and the effective acceleration, and it never returns UNKNOWN. The
  function is total: it is defined by an equation that holds for every input.
\<close>

theorem getActivity_refines_spec:
  "getActivity this spd acc = spec_getActivity this spd acc \<and>
   getActivity this spd acc \<noteq> UNKNOWN"
  by (simp add: getActivity_def getAverages_def spec_getActivity_def spec_decision_def
      spec_effective_code Let_def)

section \<open>Live step counting and calorie accrual\<close>

lemma listener_processed:
  "location s = Some loc \<Longrightarrow> latitude loc \<noteq> 0 \<Longrightarrow> longitude loc \<noteq> 0 \<Longrightarrow>
   accelerometerListener s ax ay az now newId =
     (let mag = calculateMagnitude ax ay az;
          accelData = \<lparr> accel_x = ax, accel_y = ay, accel_z = az, magnitude = mag,
                        accel_timestamp = now \<rparr>;
          spd = speedOrZero loc;
          svc = updateHistories (service s) spd mag;
          activity = getActivity svc spd mag;
          activityConfidence = getConfidence svc spd mag activity
      in s\<lparr> acceleration := Some accelData, service := svc, currentActivity := activity,
            confidence := activityConfidence,
            activityLogs := activityLogs s @
              [\<lparr> log_id = newId, log_activity = activity,
                 log_confidence = activityConfidence, log_location = loc,
                 log_acceleration = accelData, log_timestamp = now, log_speed = spd \<rparr>],
            sessionStats := liveStatsUpdate activity now (sessionStats s) \<rparr>)"
  by (simp add: accelerometerListener_def locationKnown_def Let_def)

lemma liveStatsUpdate_steps:
  "steps (liveStatsUpdate a now prev) =
     (if a = WALKING \<or> a = RUNNING then steps prev + 1 else steps prev)"
  by (simp add: liveStatsUpdate_def Let_def)

lemma liveStatsUpdate_calories:
  "calories (liveStatsUpdate a now prev) =
     calories prev + (if a = RUNNING then 0.1 else if a = WALKING then 0.05 else 0)"
  by (simp add: liveStatsUpdate_def Let_def)

lemma rest_stepCount:
  "stepCountRef (handleLocationUpdateRest t newLocation accel now newId) =
     (if detectStep (service t) (magnitude accel) \<and>
         (currentActivity (handleLocationUpdateRest t newLocation accel now newId) = WALKING \<or>
          currentActivity (handleLocationUpdateRest t newLocation accel now newId) = RUNNING)
      then stepCountRef t + 1 else stepCountRef t)"
  by (simp add: handleLocationUpdateRest_def Let_def)

lemma rest_steps:
  "steps (sessionStats (handleLocationUpdateRest t newLocation accel now newId)) =
     stepCountRef (handleLocationUpdateRest t newLocation accel now newId)"
  by (simp add: handleLocationUpdateRest_def Let_def)

lemma rest_activity:
  "currentActivity (handleLocationUpdateRest t newLocation accel now newId) =
     getActivity (service t) \<bar>speedOrZero newLocation\<bar> (magnitude accel)"
  by (simp add: handleLocationUpdateRest_def Let_def)

lemma rest_calories:
  "calories (sessionStats (handleLocationUpdateRest t newLocation accel now newId)) =
     calories (sessionStats t) +
       caloriesIncrement (config (service t))
         (currentActivity (handleLocationUpdateRest t newLocation accel now newId))
         (distanceIncrementFrom (lastLocationRef t) newLocation)"
  by (simp add: handleLocationUpdateRest_def Let_def getConfig_def)

lemma caloriesIncrement_spec:
  "cal + caloriesIncrement cfg a d = spec_calories cfg True a d cal"
  by (simp add: caloriesIncrement_def spec_calories_def)

text \<open>
  As the source stands, \<open>handleLocationUpdate\<close> never reaches the statements after the
  history update: the call throws, the \<open>catch\<close> records the error, and the statistics,
  the step counter and the classifier stay as they were.
\<close>

lemma handleLocationUpdate_throws:
  "handleLocationUpdate s newLocation now newId =
     (case acceleration s of
        None \<Rightarrow> s\<lparr> location := Some newLocation \<rparr>
      | Some accel \<Rightarrow>
          if isActive s
          then s\<lparr> location := Some newLocation, error := Some ErrorProcesandoUbicacion \<rparr>
          else s\<lparr> location := Some newLocation \<rparr>)"
  by (simp add: handleLocationUpdate_def updateHistoryCall_def Let_def split: option.splits)

lemma handleLocationUpdate_stats_unchanged:
  "sessionStats (handleLocationUpdate s newLocation now newId) = sessionStats s \<and>
   stepCountRef (handleLocationUpdate s newLocation now newId) = stepCountRef s \<and>
   service (handleLocationUpdate s newLocation now newId) = service s"
  by (simp add: handleLocationUpdate_throws split: option.splits)

subsection \<open>The first sample of a session\<close>

lemma started_fields:
  "steps (sessionStats startedTracker) = 0" "calories (sessionStats startedTracker) = 0"
  by (simp_all add: startedTracker_def zeroStats_def)

lemma started_location:
  "location startedTracker = Some somewhere" "latitude somewhere \<noteq> 0"
  "longitude somewhere \<noteq> 0" "speedOrZero somewhere = 1"
  by (simp_all add: startedTracker_def somewhere_def speedOrZero_def)

lemma started_service:
  "updateHistories (service startedTracker) 1 1 =
     initialService\<lparr> speedHistory := [1], accelerationHistory := [1] \<rparr>"
  by (simp add: startedTracker_def initialService_def updateHistories_def updateHistory_def
      DEFAULT_CLASSIFIER_CONFIG_def Let_def)

lemma started_activity:
  "getActivity (initialService\<lparr> speedHistory := [1], accelerationHistory := [1] \<rparr>) 1 1 =
     WALKING"
  by (simp add: initialService_def getActivity_def getAverages_def calculateMovingAverage_def
      DEFAULT_CLASSIFIER_CONFIG_def Let_def)

lemma firstSample_eq:
  "firstSample =
     (let accelData = \<lparr> accel_x = 1, accel_y = 0, accel_z = 0, magnitude = 1,
                        accel_timestamp = 1000 \<rparr>;
          svc = initialService\<lparr> speedHistory := [1], accelerationHistory := [1] \<rparr>;
          activityConfidence = getConfidence svc 1 1 WALKING
      in startedTracker
           \<lparr> acceleration := Some accelData, service := svc, currentActivity := WALKING,
             confidence := activityConfidence,
             activityLogs := activityLogs startedTracker @
               [\<lparr> log_id = ''log_1'', log_activity = WALKING,
                  log_confidence = activityConfidence, log_location = somewhere,
                  log_acceleration = accelData, log_timestamp = 1000, log_speed = 1 \<rparr>],
             sessionStats := liveStatsUpdate WALKING 1000 (sessionStats startedTracker) \<rparr>)"
  unfolding firstSample_def
  by (simp add: listener_processed [OF started_location(1-3)] started_location(4)
      calculateMagnitude_def started_service started_activity Let_def)

lemma firstSample_activity: "currentActivity firstSample = WALKING"
  by (simp add: firstSample_eq Let_def)

lemma firstSample_steps: "steps (sessionStats firstSample) = 1"
  by (simp add: firstSample_eq Let_def liveStatsUpdate_steps started_fields)

lemma firstSample_calories: "calories (sessionStats firstSample) = 0.05"
  by (simp add: firstSample_eq Let_def liveStatsUpdate_calories started_fields)

lemma firstSample_history: "accelerationHistory (service firstSample) = [1]"
  by (simp add: firstSample_eq Let_def)

lemma firstSample_config: "config (service firstSample) = DEFAULT_CLASSIFIER_CONFIG"
  by (simp add: firstSample_eq Let_def initialService_def)

subsection \<open>A session with two samples in the history\<close>

lemma walking_service:
  "service walkingTracker =
     initialService\<lparr> speedHistory := [1, 1], accelerationHistory := [1 / 2, 1 / 2] \<rparr>"
  by (simp add: walkingTracker_def startedTracker_def initialService_def updateHistories_def
      updateHistory_def DEFAULT_CLASSIFIER_CONFIG_def Let_def)

lemma walking_activity: "getActivity (service walkingTracker) 1 1 = WALKING"
  by (simp add: walking_service initialService_def getActivity_def getAverages_def
      calculateMovingAverage_def DEFAULT_CLASSIFIER_CONFIG_def Let_def)

lemma walking_detect: "detectStep (service walkingTracker) 1 = True"
  by (simp add: walking_service initialService_def detectStep_def
      DEFAULT_CLASSIFIER_CONFIG_def Let_def)

lemma walking_config: "config (service walkingTracker) = DEFAULT_CLASSIFIER_CONFIG"
  by (simp add: walking_service initialService_def)

lemma walking_fields:
  "stepCountRef walkingTracker = 0" "calories (sessionStats walkingTracker) = 0"
  "lastLocationRef walkingTracker = None" "magnitude oneG = 1"
  by (simp_all add: walkingTracker_def startedTracker_def zeroStats_def oneG_def)

subsection \<open>Steps\<close>

text \<open>
  Claim C2, as the source has it. In the accelerometer listener of
  hooks/ActivityClassifier.ts, a processed sample (the location is known) classifies the
  activity on the updated histories and increases the step count by exactly 1 if that
  activity is WALKING or RUNNING, whatever the step detector says, and leaves it
  unchanged otherwise. In hooks/useActivityClassifier.ts, the statements of
  \<open>handleLocationUpdate\<close> after the history update add 1 to the step counter exactly when
  \<open>detectStep\<close> fired for the sample and the activity is WALKING or RUNNING, and the
  statistics take the counter's value.
\<close>

theorem live_step_counting:
  assumes "location s = Some loc" and "latitude loc \<noteq> 0" and "longitude loc \<noteq> 0"
  shows
  "currentActivity (accelerometerListener s ax ay az now newId) =
     getActivity (updateHistories (service s) (speedOrZero loc) (calculateMagnitude ax ay az))
       (speedOrZero loc) (calculateMagnitude ax ay az) \<and>
   steps (sessionStats (accelerometerListener s ax ay az now newId)) =
     (if currentActivity (accelerometerListener s ax ay az now newId) = WALKING \<or>
         currentActivity (accelerometerListener s ax ay az now newId) = RUNNING
      then steps (sessionStats s) + 1 else steps (sessionStats s)) \<and>
   stepCountRef (handleLocationUpdateRest t newLocation accel now2 newId2) =
     spec_steps (detectStep (service t) (magnitude accel))
       (currentActivity (handleLocationUpdateRest t newLocation accel now2 newId2))
       (stepCountRef t) \<and>
   steps (sessionStats (handleLocationUpdateRest t newLocation accel now2 newId2)) =
     stepCountRef (handleLocationUpdateRest t newLocation accel now2 newId2)"
proof -
  have "currentActivity (accelerometerListener s ax ay az now newId) =
     getActivity (updateHistories (service s) (speedOrZero loc) (calculateMagnitude ax ay az))
       (speedOrZero loc) (calculateMagnitude ax ay az)"
    by (simp add: listener_processed [OF assms] Let_def)
  moreover have "steps (sessionStats (accelerometerListener s ax ay az now newId)) =
     (if currentActivity (accelerometerListener s ax ay az now newId) = WALKING \<or>
         currentActivity (accelerometerListener s ax ay az now newId) = RUNNING
      then steps (sessionStats s) + 1 else steps (sessionStats s))"
    by (simp add: listener_processed [OF assms] Let_def liveStatsUpdate_steps)
  moreover have "stepCountRef (handleLocationUpdateRest t newLocation accel now2 newId2) =
     spec_steps (detectStep (service t) (magnitude accel))
       (currentActivity (handleLocationUpdateRest t newLocation accel now2 newId2))
       (stepCountRef t)"
    by (subst rest_stepCount) (simp add: spec_steps_def spec_stepCounted_def)
  ultimately show ?thesis using rest_steps by simp
qed

text \<open>
  The theorem at the first sample of a session (the listener counts a step) and at a
  session with two samples in the history (the detector fires while walking).
\<close>

theorem live_step_counting_witness:
  "location startedTracker = Some somewhere \<and> latitude somewhere \<noteq> 0 \<and>
   longitude somewhere \<noteq> 0 \<and>
   currentActivity (accelerometerListener startedTracker 1 0 0 1000 ''log_1'') = WALKING \<and>
   steps (sessionStats (accelerometerListener startedTracker 1 0 0 1000 ''log_1'')) = 1 \<and>
   stepCountRef (handleLocationUpdateRest walkingTracker somewhere oneG 1000 ''log_2'') = 1 \<and>
   steps (sessionStats (handleLocationUpdateRest walkingTracker somewhere oneG 1000 ''log_2''))
     = 1"
  using live_step_counting [OF started_location(1-3), of 1 0 0 1000 "''log_1''"
      walkingTracker somewhere oneG 1000 "''log_2''"]
  by (simp add: started_location calculateMagnitude_def started_service started_activity
      rest_activity walking_activity walking_detect walking_fields spec_steps_def
      spec_stepCounted_def started_fields)

text \<open>
  The claim as the specification states it fails at the first sample of a session: the
  activity is WALKING, the step detector does not fire (the history holds one sample
  after the update, none before), and the listener still counts a step.
\<close>

theorem live_steps_counterexample:
  "currentActivity firstSample = WALKING \<and>
   detectStep (service firstSample) 1 = False \<and>
   detectStep (service startedTracker) 1 = False \<and>
   steps (sessionStats startedTracker) = 0 \<and>
   steps (sessionStats firstSample) = 1 \<and>
   steps (sessionStats firstSample) \<noteq>
     spec_steps (detectStep (service firstSample) 1) (currentActivity firstSample)
       (steps (sessionStats startedTracker))"
  by (simp add: firstSample_activity firstSample_steps detectStep_def firstSample_history
      spec_steps_def spec_stepCounted_def)
     (simp add: startedTracker_def zeroStats_def initialService_def)

subsection \<open>Calories\<close>

text \<open>
  Claim C3, as the source has it. In the accelerometer listener of
  hooks/ActivityClassifier.ts, a processed sample adds 0.1 to the calories when the
  activity is RUNNING, 0.05 when it is WALKING and nothing otherwise, whether or not a
  step is detected. In hooks/useActivityClassifier.ts, the statements of
  \<open>handleLocationUpdate\<close> after the history update add what the specification adds for
  a counted step (\<open>caloriesPerStep\<close> while WALKING, \<open>caloriesPerStep\<close> plus the
  per-kilometre share of the distance increment while RUNNING, nothing otherwise), on
  every update and without regard to the step detector.
\<close>

theorem live_calorie_accrual:
  assumes "location s = Some loc" and "latitude loc \<noteq> 0" and "longitude loc \<noteq> 0"
  shows
  "currentActivity (accelerometerListener s ax ay az now newId) =
     getActivity (updateHistories (service s) (speedOrZero loc) (calculateMagnitude ax ay az))
       (speedOrZero loc) (calculateMagnitude ax ay az) \<and>
   calories (sessionStats (accelerometerListener s ax ay az now newId)) =
     calories (sessionStats s) +
       (if currentActivity (accelerometerListener s ax ay az now newId) = RUNNING then 0.1
        else if currentActivity (accelerometerListener s ax ay az now newId) = WALKING
        then 0.05 else 0) \<and>
   calories (sessionStats (handleLocationUpdateRest t newLocation accel now2 newId2)) =
     spec_calories (config (service t)) True
       (currentActivity (handleLocationUpdateRest t newLocation accel now2 newId2))
       (distanceIncrementFrom (lastLocationRef t) newLocation)
       (calories (sessionStats t))"
proof -
  have "calories (sessionStats (accelerometerListener s ax ay az now newId)) =
     calories (sessionStats s) +
       (if currentActivity (accelerometerListener s ax ay az now newId) = RUNNING then 0.1
        else if currentActivity (accelerometerListener s ax ay az now newId) = WALKING
        then 0.05 else 0)"
    by (simp add: listener_processed [OF assms] Let_def liveStatsUpdate_calories)
  moreover have "currentActivity (accelerometerListener s ax ay az now newId) =
     getActivity (updateHistories (service s) (speedOrZero loc) (calculateMagnitude ax ay az))
       (speedOrZero loc) (calculateMagnitude ax ay az)"
    by (simp add: listener_processed [OF assms] Let_def)
  moreover have
    "calories (sessionStats (handleLocationUpdateRest t newLocation accel now2 newId2)) =
     spec_calories (config (service t)) True
       (currentActivity (handleLocationUpdateRest t newLocation accel now2 newId2))
       (distanceIncrementFrom (lastLocationRef t) newLocation)
       (calories (sessionStats t))"
    by (simp only: rest_calories caloriesIncrement_spec)
  ultimately show ?thesis by (simp only: simp_thms)
qed

theorem live_calorie_accrual_witness:
  "location startedTracker = Some somewhere \<and> latitude somewhere \<noteq> 0 \<and>
   longitude somewhere \<noteq> 0 \<and>
   currentActivity (accelerometerListener startedTracker 1 0 0 1000 ''log_1'') = WALKING \<and>
   calories (sessionStats (accelerometerListener startedTracker 1 0 0 1000 ''log_1'')) = 0.05 \<and>
   calories (sessionStats (handleLocationUpdateRest walkingTracker somewhere oneG 1000 ''log_2''))
     = 0.04"
  using live_calorie_accrual [OF started_location(1-3), of 1 0 0 1000 "''log_1''"
      walkingTracker somewhere oneG 1000 "''log_2''"]
    firstSample_activity
  by (simp add: started_location firstSample_def [symmetric]
      rest_activity walking_activity walking_fields walking_config distanceIncrementFrom_def
      spec_calories_def DEFAULT_CLASSIFIER_CONFIG_def started_fields)

text \<open>
  The claim as the specification states it fails at the first sample of a session: the
  activity is WALKING and the calories rise by 0.05, which is neither the
  \<open>caloriesPerStep\<close> of a counted step (0.04) nor the 0 of an update without one.
\<close>

theorem live_calories_counterexample:
  "currentActivity firstSample = WALKING \<and>
   calories (sessionStats startedTracker) = 0 \<and>
   calories (sessionStats firstSample) = 0.05 \<and>
   calories (sessionStats firstSample) \<noteq>
     spec_calories (config (service firstSample)) True (currentActivity firstSample) 0
       (calories (sessionStats startedTracker)) \<and>
   calories (sessionStats firstSample) \<noteq>
     spec_calories (config (service firstSample)) False (currentActivity firstSample) 0
       (calories (sessionStats startedTracker))"
  by (simp add: firstSample_activity firstSample_calories firstSample_config
      spec_calories_def DEFAULT_CLASSIFIER_CONFIG_def)
     (simp add: startedTracker_def zeroStats_def)

section \<open>Batch recomputation\<close>

text \<open>
  Claim C4, as the source has it. Batch recomputation is a function of the log, the
  session id, the start time, the classifier service it reads and the clock. Two runs
  over the same log agree on every field but \<open>endTime\<close> and \<open>duration\<close>: \<open>endTime\<close> is
  the clock reading of the run and, for a log that is not empty, \<open>duration\<close> is that
  reading minus the start time. The two runs return the same statistics if and only if
  they read the same clock value.
\<close>

theorem batch_recomputation_clock:
  "calculateSessionStats this now2 logs sid start =
     (calculateSessionStats this now1 logs sid start)
       \<lparr> endTime := Some now2,
         duration := (if length logs = 0 then 0 else now2 - start) \<rparr> \<and>
   (calculateSessionStats this now1 logs sid start =
    calculateSessionStats this now2 logs sid start) = (now1 = now2)"
proof -
  have upd: "calculateSessionStats this now2 logs sid start =
     (calculateSessionStats this now1 logs sid start)
       \<lparr> endTime := Some now2,
         duration := (if length logs = 0 then 0 else now2 - start) \<rparr>"
    by (simp add: calculateSessionStats_def Let_def)
  have clock: "endTime (calculateSessionStats this t logs sid start) = Some t" for t
    by (simp add: calculateSessionStats_def Let_def)
  have same: "(calculateSessionStats this now1 logs sid start =
               calculateSessionStats this now2 logs sid start) = (now1 = now2)"
  proof (rule iffI)
    assume "calculateSessionStats this now1 logs sid start =
            calculateSessionStats this now2 logs sid start"
    then have "endTime (calculateSessionStats this now1 logs sid start) =
               endTime (calculateSessionStats this now2 logs sid start)"
      by (rule arg_cong)
    then show "now1 = now2" by (simp only: clock option.inject)
  next
    assume "now1 = now2"
    then show "calculateSessionStats this now1 logs sid start =
               calculateSessionStats this now2 logs sid start"
      by (rule arg_cong)
  qed
  show ?thesis by (rule conjI [OF upd same])
qed

text \<open>
  The claim as the specification states it fails for two runs over the same one-record
  log, one second apart.
\<close>

theorem batch_not_idempotent_counterexample:
  "calculateSessionStats initialService 1000 [sampleLog] ''session_1'' 0 \<noteq>
   calculateSessionStats initialService 2000 [sampleLog] ''session_1'' 0"
proof
  assume "calculateSessionStats initialService 1000 [sampleLog] ''session_1'' 0 =
          calculateSessionStats initialService 2000 [sampleLog] ''session_1'' 0"
  then have "endTime (calculateSessionStats initialService 1000 [sampleLog] ''session_1'' 0) =
             endTime (calculateSessionStats initialService 2000 [sampleLog] ''session_1'' 0)"
    by simp
  then show False by (simp add: calculateSessionStats_def Let_def)
qed

text \<open>
  The step count of a batch run is read off the service's acceleration history at the
  time of the run, not off the log: the same two-record log counts no step on a fresh
  service and one step on a service whose history holds two quiet samples.
\<close>

lemma batch_steps_read_service_history:
  "steps (calculateSessionStats initialService 1000 [sampleLog, sampleLog] ''session_1'' 0) = 0 \<and>
   steps (calculateSessionStats (service walkingTracker) 1000 [sampleLog, sampleLog]
            ''session_1'' 0) = 1"
  by (simp add: calculateSessionStats_def Let_def walking_detect sampleLog_def)
     (simp add: detectStep_def initialService_def)

text \<open>
  Claim C8. For every session id and start time, batch recomputation over the empty log
  returns statistics (the function has no failing branch) whose distance, steps,
  calories, average speed, maximum speed and duration are 0, whose activity tally is
  empty, and whose \<open>endTime\<close> is the clock reading, not null.
\<close>

theorem empty_log_stats:
  "calculateSessionStats this now [] sid start =
     \<lparr> sessionId = sid, startTime = start, endTime = Some now, duration = 0,
       distance = 0, steps = 0, calories = 0, averageSpeed = 0, maxSpeed = 0,
       activities = Map.empty \<rparr> \<and>
   endTime (calculateSessionStats this now [] sid start) \<noteq> None"
  by (simp add: calculateSessionStats_def)

section \<open>The confidence estimate\<close>

lemma consistencyBonus_bounds:
  "0 \<le> consistencyBonus cfg spd acc a \<and> consistencyBonus cfg spd acc a \<le> 0.3"
  by (cases a) (simp_all add: consistencyBonus_def)

lemma spec_clamp_min_max: "lo \<le> hi \<Longrightarrow> spec_clamp v lo hi = min (max v lo) hi"
  by (simp add: spec_clamp_def min_def max_def)

lemma spec_clamp_range:
  "lo \<le> hi \<Longrightarrow> lo \<le> spec_clamp v lo hi \<and> spec_clamp v lo hi \<le> hi"
  by (simp add: spec_clamp_def)

text \<open>
  With a window that is not 0, the confidence is the specification's clamped sum and
  lies in the unit interval. Whenever the confidence is a number it lies there; it is
  NaN exactly when the window is 0 and the speed history is empty.
\<close>

lemma getConfidence_nonzero_window:
  assumes "movingAverageWindow (config this) \<noteq> 0"
  shows "getConfidence this spd acc a = Some (spec_confidence this spd acc a) \<and>
         0 \<le> spec_confidence this spd acc a \<and> spec_confidence this spd acc a \<le> 1"
  using assms spec_clamp_range [of 0 1]
  by (simp add: getConfidence_def historyFactor_def spec_confidence_def Let_def
      spec_clamp_min_max)

lemma getConfidence_range:
  "getConfidence this spd acc a = Some v \<Longrightarrow> 0 \<le> v \<and> v \<le> 1"
  by (auto simp: getConfidence_def historyFactor_def Let_def split: if_splits)

lemma getConfidence_NaN_iff:
  "getConfidence this spd acc a = None \<longleftrightarrow>
     movingAverageWindow (config this) = 0 \<and> speedHistory this = []"
  by (simp add: getConfidence_def historyFactor_def Let_def)

lemma zeroWindow_config: "movingAverageWindow (config zeroWindowService) = 0"
  by (simp add: zeroWindowService_def setConfig_def noOverride_def override_def Let_def)

lemma zeroWindow_history: "speedHistory zeroWindowService = []"
  by (simp add: zeroWindowService_def setConfig_def initialService_def Let_def)

lemma zeroWindow_push: "speedHistory (updateHistories zeroWindowService v a) = []"
  by (simp add: updateHistories_def updateHistory_def zeroWindow_config zeroWindow_history
      Let_def)

lemma zeroWindow_push_config:
  "movingAverageWindow (config (updateHistories zeroWindowService v a)) = 0"
  by (simp add: updateHistories_def zeroWindow_config Let_def)

text \<open>
  Claim C5 at a window of 0. After \<open>setConfig({ movingAverageWindow: 0 })\<close> the speed
  history is empty and stays empty under every push, the history factor is \<open>0 / 0\<close>, and
  \<open>getConfidence\<close> returns NaN, before and after a push: not a value of the unit
  interval.
\<close>

theorem getConfidence_zero_window_NaN:
  "movingAverageWindow (config zeroWindowService) = 0 \<and>
   getConfidence zeroWindowService 0.2 0.05 IDLE = None \<and>
   speedHistory (updateHistories zeroWindowService 0.2 0.05) = [] \<and>
   getConfidence (updateHistories zeroWindowService 0.2 0.05) 0.2 0.05 IDLE = None"
  by (simp add: getConfidence_def historyFactor_def zeroWindow_config zeroWindow_history
      zeroWindow_push zeroWindow_push_config)

section \<open>The history buffer\<close>

lemma pushAll_snoc: "pushAll this (vs @ [v]) = updateHistory this (pushAll this vs) v"
  by (simp add: pushAll_def)

text \<open>After any pushes the buffer holds the most recent values, in their order, as
  many as the whole part of the window.\<close>

lemma pushAll_drop:
  assumes w: "0 \<le> movingAverageWindow (config this)"
  shows "pushAll this vs = drop (length vs - nat \<lfloor>movingAverageWindow (config this)\<rfloor>) vs"
proof (induction vs rule: rev_induct)
  case Nil
  show ?case by (simp add: pushAll_def)
next
  case (snoc v vs)
  define k where "k = nat \<lfloor>movingAverageWindow (config this)\<rfloor>"
  have gt: "real n > movingAverageWindow (config this) \<longleftrightarrow> n > k" for n
    using w unfolding k_def by linarith
  have IH: "pushAll this vs = drop (length vs - k) vs"
    using snoc.IH by (simp add: k_def)
  show ?case
  proof (cases "length vs < k")
    case True
    then show ?thesis
      unfolding pushAll_snoc IH k_def[symmetric]
      by (simp add: updateHistory_def gt)
  next
    case False
    then have len: "k \<le> length vs" by simp
    show ?thesis
    proof (cases "k = 0")
      case True
      then show ?thesis
        unfolding pushAll_snoc IH k_def[symmetric]
        by (simp add: updateHistory_def gt)
    next
      case k: False
      then have ne: "drop (length vs - k) vs \<noteq> []" using len by simp
      have "Suc (length vs) - k = Suc (length vs - k)" using len by simp
      then show ?thesis
        unfolding pushAll_snoc IH k_def[symmetric]
        using len k ne by (simp add: updateHistory_def gt drop_Suc tl_drop)
    qed
  qed
qed

text \<open>\<open>updateHistories\<close> is one push into each channel and keeps the configuration.\<close>

lemma updateHistories_channels:
  "speedHistory (updateHistories this v a) = updateHistory this (speedHistory this) v \<and>
   accelerationHistory (updateHistories this v a) =
     updateHistory this (accelerationHistory this) a \<and>
   config (updateHistories this v a) = config this"
  by (simp add: updateHistories_def updateHistory_def Let_def)

text \<open>
  Claim C6, for a window that is not negative. For every configuration with window
  \<open>w \<ge> 0\<close> and every sequence of pushes into an empty buffer, the buffer is at most
  \<open>w\<close> long, and it holds the last pushed values in the order of their arrival: the
  values that are gone are the oldest ones.
\<close>

theorem pushAll_bounded_fifo:
  assumes w: "0 \<le> movingAverageWindow (config this)"
  shows "real (length (pushAll this vs)) \<le> movingAverageWindow (config this) \<and>
         pushAll this vs =
           drop (length vs - nat \<lfloor>movingAverageWindow (config this)\<rfloor>) vs"
proof -
  have "length (pushAll this vs) \<le> nat \<lfloor>movingAverageWindow (config this)\<rfloor>"
    by (simp add: pushAll_drop[OF w])
  then have "real (length (pushAll this vs)) \<le> movingAverageWindow (config this)"
    using w by linarith
  then show ?thesis using pushAll_drop[OF w] by simp
qed

theorem pushAll_bounded_fifo_witness:
  "0 \<le> movingAverageWindow (config initialService) \<and>
   real (length (pushAll initialService [1, 2, 3, 4, 5, 6, 7])) \<le> 5 \<and>
   pushAll initialService [1, 2, 3, 4, 5, 6, 7] = [3, 4, 5, 6, 7]"
  using pushAll_bounded_fifo [of initialService "[1, 2, 3, 4, 5, 6, 7]"]
  by (simp add: initialService_def DEFAULT_CLASSIFIER_CONFIG_def)

text \<open>
  With a negative window the claim fails: every push leaves the buffer empty, and a
  length of 0 is above the window.
\<close>

theorem negative_window_counterexample:
  "\<not> real (length (pushAll negativeWindowService [1])) \<le>
      movingAverageWindow (config negativeWindowService)"
  by (simp add: pushAll_def updateHistory_def negativeWindowService_def setConfig_def
      initialService_def noOverride_def override_def)

section \<open>The step detector\<close>

text \<open>
  Claim C7. For every classifier state and every magnitude \<open>m\<close>, \<open>detectStep\<close> is false
  when the acceleration history holds fewer than 2 samples; otherwise it is true exactly
  when \<open>m\<close> exceeds the most recent history sample by more than \<open>stepDetectionThreshold\<close>
  and \<open>m\<close> exceeds \<open>walkingAccelerationThreshold\<close>.
\<close>

theorem detectStep_rule: "detectStep this m = spec_detectStep this m"
proof (cases "length (accelerationHistory this) < 2")
  case True
  then show ?thesis by (simp add: detectStep_def spec_detectStep_def)
next
  case False
  then have ne: "accelerationHistory this \<noteq> []" by auto
  have "accelerationHistory this ! (length (accelerationHistory this) - 1)
        = last (accelerationHistory this)"
    using ne by (simp add: last_conv_nth)
  with False show ?thesis
    by (auto simp add: detectStep_def spec_detectStep_def Let_def)
qed

section \<open>The haversine distance\<close>

lemma haversineA_sym: "haversineA lat1 lon1 lat2 lon2 = haversineA lat2 lon2 lat1 lon1"
proof -
  have p: "((lat1 - lat2) * pi) / 180 / 2 = - (((lat2 - lat1) * pi) / 180 / 2)"
    by (simp add: field_simps)
  have l: "((lon1 - lon2) * pi) / 180 / 2 = - (((lon2 - lon1) * pi) / 180 / 2)"
    by (simp add: field_simps)
  show ?thesis
    unfolding haversineA_def Let_def p l sin_minus by (simp add: mult.commute)
qed

lemma haversineA_same: "haversineA lat lon lat lon = 0"
  by (simp add: haversineA_def)

lemma sin_square_le_one: "sin (u::real) * sin u \<le> 1"
  using sin_cos_squared_add3 [of u] zero_le_square [of "cos u"] by linarith

text \<open>
  Over the reals the term \<open>a\<close> lies between 0 and 1 for all coordinates, so both square
  roots of \<open>calculateDistance\<close> are taken of numbers that are not negative.
\<close>

lemma haversineA_bounds:
  "0 \<le> haversineA lat1 lon1 lat2 lon2 \<and> haversineA lat1 lon1 lat2 lon2 \<le> 1"
proof -
  define p1 where "p1 = (lat1 * pi) / 180"
  define p2 where "p2 = (lat2 * pi) / 180"
  define t where
    "t = sin ((((lon2 - lon1) * pi) / 180) / 2) * sin ((((lon2 - lon1) * pi) / 180) / 2)"
  define c where "c = cos (p2 - p1)"
  define d where "d = cos (p1 + p2)"
  have dphi: "((lat2 - lat1) * pi) / 180 = p2 - p1"
    by (simp add: p1_def p2_def field_simps)
  have t01: "0 \<le> t" "t \<le> 1"
    unfolding t_def by (simp_all add: sin_square_le_one)
  have c11: "- 1 \<le> c" "c \<le> 1" and d11: "- 1 \<le> d" "d \<le> 1"
    unfolding c_def d_def by simp_all
  define h where "h = sin ((p2 - p1) / 2) * sin ((p2 - p1) / 2)"
  have dbl: "2 * ((p2 - p1) / 2) = p2 - p1" by simp
  have "cos (p2 - p1) = 1 - 2 * (sin ((p2 - p1) / 2))\<^sup>2"
    using cos_double_sin [of "(p2 - p1) / 2"] unfolding dbl .
  then have h_eq: "h = (1 - c) / 2"
    unfolding h_def c_def by (simp add: power2_eq_square)
  have cc: "cos p1 * cos p2 = (c + d) / 2"
    unfolding c_def d_def by (simp add: cos_diff cos_add)
  have A: "haversineA lat1 lon1 lat2 lon2 = h + cos p1 * cos p2 * t"
    unfolding haversineA_def Let_def dphi h_def t_def p1_def p2_def by (simp add: mult.assoc)
  have A2: "haversineA lat1 lon1 lat2 lon2 = (1 - t) * ((1 - c) / 2) + t * ((1 + d) / 2)"
    unfolding A h_eq cc by (simp add: field_simps)
  have u: "0 \<le> (1 - c) / 2" "(1 - c) / 2 \<le> 1" using c11 by simp_all
  have v: "0 \<le> (1 + d) / 2" "(1 + d) / 2 \<le> 1" using d11 by simp_all
  have lo: "0 \<le> (1 - t) * ((1 - c) / 2) + t * ((1 + d) / 2)"
    using t01 u v by (intro add_nonneg_nonneg mult_nonneg_nonneg) simp_all
  have "(1 - t) * ((1 - c) / 2) \<le> (1 - t) * 1"
    using t01 u by (intro mult_left_mono) simp_all
  moreover have "t * ((1 + d) / 2) \<le> t * 1"
    using t01 v by (intro mult_left_mono) simp_all
  ultimately have hi: "(1 - t) * ((1 - c) / 2) + t * ((1 + d) / 2) \<le> 1"
    by simp
  show ?thesis unfolding A2 using lo hi by simp
qed

text \<open>
  Claim C9. The distance from a coordinate pair to itself is 0, and the distance from A
  to B is the distance from B to A, for all coordinates.
\<close>

theorem calculateDistance_zero_and_symmetric:
  "calculateDistance lat1 lon1 lat1 lon1 = 0 \<and>
   calculateDistance lat1 lon1 lat2 lon2 = calculateDistance lat2 lon2 lat1 lon1"
proof -
  have "calculateDistance lat1 lon1 lat1 lon1 = 0"
    by (simp add: calculateDistance_def haversineA_same atan2_def)
  moreover have
    "calculateDistance lat1 lon1 lat2 lon2 = calculateDistance lat2 lon2 lat1 lon1"
    unfolding calculateDistance_def by (simp add: haversineA_sym [of lat1 lon1 lat2 lon2])
  ultimately show ?thesis by simp
qed

section \<open>The read-only operations\<close>

lemma readOnly_invoke: "readOnly m \<Longrightarrow> snd (invoke this m) = this"
  by (cases m) simp_all

text \<open>
  Claim C10. \<open>getActivity\<close>, \<open>getConfidence\<close> and \<open>detectStep\<close> leave the configuration
  and both histories as they are: any sequence of these calls, in any order and of any
  length, ends in the state it started from, and each call in it returns what it returns
  on that state.
\<close>

theorem readOnly_calls_frame:
  "list_all readOnly ms \<Longrightarrow>
   invokeAll this ms = (map (\<lambda>m. fst (invoke this m)) ms, this)"
proof (induction ms)
  case Nil
  show ?case by simp
next
  case (Cons m ms)
  then have ro: "readOnly m" and rest: "list_all readOnly ms" by simp_all
  obtain r where r: "invoke this m = (r, this)"
    using readOnly_invoke [OF ro, of this] by (cases "invoke this m") simp
  show ?case using Cons.IH [OF rest] r by simp
qed

theorem readOnly_calls_frame_witness:
  "list_all readOnly [DetectStep 1, GetActivity 6 1, GetConfidence 6 1 RUNNING, DetectStep 1] \<and>
   invokeAll (updateHistories (updateHistories initialService 6 (1/2)) 6 (1/2))
     [DetectStep 1, GetActivity 6 1, GetConfidence 6 1 RUNNING, DetectStep 1] =
     ([Step True, Activity VEHICLE, Confidence (Some 0.88), Step True],
      updateHistories (updateHistories initialService 6 (1/2)) 6 (1/2))"
  using readOnly_calls_frame
    [of "[DetectStep 1, GetActivity 6 1, GetConfidence 6 1 RUNNING, DetectStep 1]"
        "updateHistories (updateHistories initialService 6 (1/2)) 6 (1/2)"]
  by (simp add: updateHistories_def updateHistory_def initialService_def
      DEFAULT_CLASSIFIER_CONFIG_def detectStep_def getActivity_def getAverages_def
      calculateMovingAverage_def getConfidence_def historyFactor_def consistencyBonus_def
      stabilityBonus_def Let_def)

end
